theory Spec2Isabelle
  imports Main "HOL-Library.AList"
begin

section \<open>The CSV wizard of app.py\<close>

text \<open>
  The program is one Streamlit script. Every user interaction runs the script once, from
  top to bottom, over the session state (the table \<open>df\<close>, the wizard index and the
  draft row) and the disk. The embedding follows the script: the helpers of the section
  HELPERS as functions, the session state as a record, one run of the script as a function
  from the user's input and the state to the new state.

  Three libraries are below the script: the Python builtins, pandas and Streamlit. The
  builtins on strings and integers are written out. What pandas and the float type decide
  is not in the repository: it is taken as a parameter, collected in the record \<open>lib\<close>.
\<close>

subsection \<open>Python values\<close>

text \<open>
  A text is a list of characters, a character being a code point below 256.
  \<open>'f\<close> is the type of Python floats, which the model never looks into.
\<close>

datatype raw = RNone | RBool bool | RStr string

datatype 'f pyval = PNone | PBool bool | PInt int | PFloat 'f | PStr string

text \<open>The four kinds \<open>"bool"\<close>, \<open>"int"\<close>, \<open>"float"\<close> and \<open>"text"\<close>.\<close>

datatype kind = KBool | KInt | KFloat | KText

text \<open>
  The classes of column dtypes that \<open>is_bool_dtype\<close>, \<open>is_integer_dtype\<close> and
  \<open>is_float_dtype\<close> tell apart; every other dtype (object, the dtype of text columns,
  first of all) is \<open>Object_dtype\<close>.
\<close>

datatype dtype = Bool_dtype | Integer_dtype | Float_dtype | Object_dtype

record 'f series =
  dtype :: dtype
  vals :: "'f pyval list"

text \<open>
  A DataFrame, column by column as pandas stores it: the labels in order, each with its
  series. \<open>df[c]\<close> is the series of the column labelled \<open>c\<close>; the model reads it for
  frames whose labels are distinct (with a repeated label pandas returns a frame, not a
  series).
\<close>

type_synonym 'f table = "(string \<times> 'f series) list"

text \<open>
  The parameters: \<open>py_float\<close> is \<open>float(s)\<close> (\<open>None\<close> when it raises ValueError),
  \<open>is_nan\<close> tells the float NaN, \<open>int_max_str_digits\<close> is the interpreter's limit on the
  digits \<open>int(s)\<close> accepts (0: no limit), \<open>to_numeric_ok\<close> tells whether
  \<open>pd.to_numeric\<close> returns on the values (rather than raising), \<open>concat_dtype\<close> is the
  dtype \<open>pd.concat\<close> gives a column from its dtype, its values and the value appended,
  \<open>to_csv\<close> is the text \<open>DataFrame.to_csv(index=False)\<close> writes (\<open>'b\<close> is the unit it
  is written in), and \<open>read_csv\<close> is \<open>pd.read_csv\<close> on a file's text, with the
  \<open>na_values\<close> it is given and \<open>keep_default_na=True\<close> (\<open>None\<close> when it raises).
\<close>

record ('f, 'b) lib =
  py_float :: "string \<Rightarrow> 'f option"
  is_nan :: "'f \<Rightarrow> bool"
  int_max_str_digits :: nat
  to_numeric_ok :: "'f pyval list \<Rightarrow> bool"
  concat_dtype :: "dtype \<Rightarrow> 'f pyval list \<Rightarrow> 'f pyval \<Rightarrow> dtype"
  to_csv :: "'f table \<Rightarrow> 'b list"
  read_csv :: "string option list \<Rightarrow> 'b list \<Rightarrow> 'f table option"

subsection \<open>Builtins: \<open>str\<close>, \<open>bool\<close>, \<open>str.strip\<close>, \<open>str.split\<close>, \<open>int\<close>\<close>

definition py_isspace :: "char \<Rightarrow> bool" where
  "py_isspace c = (of_char c \<in> {9, 10, 11, 12, 13, 28, 29, 30, 31, 32, 133, 160 :: nat})"

definition py_strip :: "string \<Rightarrow> string" where
  "py_strip s = rev (dropWhile py_isspace (rev (dropWhile py_isspace s)))"

fun py_split :: "char \<Rightarrow> string \<Rightarrow> string list" where
  "py_split sep [] = [[]]"
| "py_split sep (c # cs) =
     (if c = sep then [] # py_split sep cs
      else (case py_split sep cs of
              [] \<Rightarrow> [[c]]
            | w # ws \<Rightarrow> (c # w) # ws))"

fun py_str :: "raw \<Rightarrow> string" where
  "py_str RNone = ''None''"
| "py_str (RBool b) = (if b then ''True'' else ''False'')"
| "py_str (RStr s) = s"

fun py_bool :: "raw \<Rightarrow> bool" where
  "py_bool RNone = False"
| "py_bool (RBool b) = b"
| "py_bool (RStr s) = (s \<noteq> [])"

definition is_digit :: "char \<Rightarrow> bool" where
  "is_digit c = (48 \<le> (of_char c :: nat) \<and> (of_char c :: nat) \<le> 57)"

definition digit_val :: "char \<Rightarrow> int" where
  "digit_val c = int (of_char c) - 48"

text \<open>
  The digits of an integer literal as \<open>int\<close> reads it: decimal digits, with single
  underscores between digits allowed; the result is the digits without the underscores.
\<close>

fun digit_run :: "string \<Rightarrow> string option" where
  "digit_run [] = None"
| "digit_run [c] = (if is_digit c then Some [c] else None)"
| "digit_run (c # u # cs) =
     (if \<not> is_digit c then None
      else if u = CHR ''_'' then map_option ((#) c) (digit_run cs)
      else map_option ((#) c) (digit_run (u # cs)))"

definition decimal :: "string \<Rightarrow> int" where
  "decimal ds = foldl (\<lambda>a c. 10 * a + digit_val c) 0 ds"

text \<open>
  \<open>int(s)\<close> for a text \<open>s\<close>: surrounding whitespace is dropped, then an optional sign and
  the digits. \<open>None\<close> is ValueError, raised on any other text and on more digits than the
  limit allows.
\<close>

definition py_int :: "nat \<Rightarrow> string \<Rightarrow> int option" where
  "py_int limit s =
     (let t = py_strip s;
          neg = (case t of [] \<Rightarrow> False | c # r \<Rightarrow> c = CHR ''-'');
          body = (case t of [] \<Rightarrow> []
                  | c # r \<Rightarrow> if c = CHR ''-'' \<or> c = CHR ''+'' then r else t)
      in case digit_run body of
           None \<Rightarrow> None
         | Some ds \<Rightarrow>
             if limit \<noteq> 0 \<and> limit < length ds then None
             else Some (if neg then - decimal ds else decimal ds))"

subsection \<open>HELPERS: \<open>parse_value\<close>\<close>

text \<open>The value itself, as the text branch returns it.\<close>

fun as_value :: "raw \<Rightarrow> 'f pyval" where
  "as_value RNone = PNone"
| "as_value (RBool b) = PBool b"
| "as_value (RStr s) = PStr s"

definition parse_value :: "('f, 'b) lib \<Rightarrow> raw \<Rightarrow> kind \<Rightarrow> 'f pyval" where
  "parse_value L v k =
     (if k = KBool then PBool (py_bool v)
      else if k = KInt then
        (if v = RNone \<or> py_strip (py_str v) = [] then PNone
         else (case py_int (int_max_str_digits L) (py_strip (py_str v)) of
                 None \<Rightarrow> PNone
               | Some n \<Rightarrow> PInt n))
      else if k = KFloat then
        (if v = RNone \<or> py_strip (py_str v) = [] then PNone
         else (case py_float L (py_strip (py_str v)) of
                 None \<Rightarrow> PNone
               | Some x \<Rightarrow> PFloat x))
      else (if v \<noteq> RNone then as_value v else PStr []))"

subsection \<open>HELPERS: \<open>infer_input_type\<close>\<close>

definition is_bool_dtype :: "'f series \<Rightarrow> bool" where
  "is_bool_dtype s = (dtype s = Bool_dtype)"

definition is_integer_dtype :: "'f series \<Rightarrow> bool" where
  "is_integer_dtype s = (dtype s = Integer_dtype)"

definition is_float_dtype :: "'f series \<Rightarrow> bool" where
  "is_float_dtype s = (dtype s = Float_dtype)"

text \<open>\<open>series.empty\<close>: the series has no entry at all.\<close>

definition empty_series :: "'f series \<Rightarrow> bool" where
  "empty_series s = (vals s = [])"

text \<open>The missing values of pandas: \<open>None\<close> and the float NaN.\<close>

definition isna :: "('f, 'b) lib \<Rightarrow> 'f pyval \<Rightarrow> bool" where
  "isna L v = (case v of PNone \<Rightarrow> True | PFloat x \<Rightarrow> is_nan L x | _ \<Rightarrow> False)"

definition dropna :: "('f, 'b) lib \<Rightarrow> 'f pyval list \<Rightarrow> 'f pyval list" where
  "dropna L vs = filter (\<lambda>v. \<not> isna L v) vs"

definition infer_input_type :: "('f, 'b) lib \<Rightarrow> 'f series \<Rightarrow> kind" where
  "infer_input_type L s =
     (if empty_series s then KText
      else if is_bool_dtype s then KBool
      else if is_integer_dtype s then KInt
      else if is_float_dtype s then KFloat
      else if to_numeric_ok L (dropna L (vals s)) then KFloat
      else KText)"

subsection \<open>HELPERS: \<open>load_csv\<close> and \<open>save_csv_atomic\<close>\<close>

text \<open>
  The disk maps a path to the text of the file there. Writing a file and renaming it
  always succeed in the model (no full disk, no missing directory).
\<close>

type_synonym 'b disk = "string \<rightharpoonup> 'b list"

definition DEFAULT_CSV_PATH :: string where
  "DEFAULT_CSV_PATH = ''/workspaces/rawand/database.csv''"

definition NA_VALUES :: "string option list" where
  "NA_VALUES = [Some [], Some ''NA'', Some ''NaN'', Some ''None'', None]"

definition load_csv :: "('f, 'b) lib \<Rightarrow> string \<Rightarrow> 'b disk \<Rightarrow> 'f table \<times> 'b disk" where
  "load_csv L path d =
     (case d path of
        None \<Rightarrow> ([], d(path \<mapsto> to_csv L []))
      | Some txt \<Rightarrow>
          (case read_csv L NA_VALUES txt of
             None \<Rightarrow> ([], d)
           | Some t \<Rightarrow> (t, d)))"

text \<open>\<open>os.replace(src, dst)\<close>, one step of the file system; \<open>None\<close> when \<open>src\<close> is missing.\<close>

definition os_replace :: "'b disk \<Rightarrow> string \<Rightarrow> string \<Rightarrow> 'b disk option" where
  "os_replace d src dst =
     (case d src of
        None \<Rightarrow> None
      | Some txt \<Rightarrow> Some ((d(src := None))(dst \<mapsto> txt)))"

definition save_csv_atomic :: "('f, 'b) lib \<Rightarrow> 'f table \<Rightarrow> string \<Rightarrow> 'b disk \<Rightarrow> 'b disk option" where
  "save_csv_atomic L t path d =
     (let tmp = path @ ''.tmp'';
          d1 = d(tmp \<mapsto> to_csv L t)
      in os_replace d1 tmp path)"

text \<open>
  The disks another process can observe while \<open>save_csv_atomic\<close> runs: the temporary
  file just opened (empty) and after each unit of the text is written, then the disk
  after the rename.
\<close>

definition write_steps :: "'b disk \<Rightarrow> string \<Rightarrow> 'b list \<Rightarrow> 'b disk list" where
  "write_steps d p txt = map (\<lambda>n. d(p \<mapsto> take n txt)) [0..<Suc (length txt)]"

definition save_csv_steps :: "('f, 'b) lib \<Rightarrow> 'f table \<Rightarrow> string \<Rightarrow> 'b disk \<Rightarrow> 'b disk list" where
  "save_csv_steps L t path d =
     (let tmp = path @ ''.tmp'';
          ws = write_steps d tmp (to_csv L t)
      in ws @ (case os_replace (last ws) tmp path of None \<Rightarrow> [] | Some d' \<Rightarrow> [d']))"


subsection \<open>STATE\<close>

text \<open>
  The session state (\<open>csv_path\<close>, \<open>df\<close>, \<open>wizard_idx\<close>, \<open>temp_row\<close>) and the disk.
\<close>

record ('f, 'b) app =
  csv_path :: string
  df :: "'f table"
  wizard_idx :: int
  temp_row :: "string \<rightharpoonup> raw"
  disk :: "'b disk"

definition reset_wizard :: "bool \<Rightarrow> ('f, 'b) app \<Rightarrow> ('f, 'b) app" where
  "reset_wizard clear_values s =
     (let s1 = s\<lparr>wizard_idx := 0\<rparr>
      in if clear_values then s1\<lparr>temp_row := Map.empty\<rparr> else s1)"

text \<open>The first run of a session sets the four fields, loading the table from the disk.\<close>

definition startup :: "('f, 'b) lib \<Rightarrow> 'b disk \<Rightarrow> ('f, 'b) app" where
  "startup L d =
     (case load_csv L DEFAULT_CSV_PATH d of
        (t, d') \<Rightarrow>
          \<lparr>csv_path = DEFAULT_CSV_PATH, df = t, wizard_idx = 0, temp_row = Map.empty,
           disk = d'\<rparr>)"

subsection \<open>pandas: frames\<close>

text \<open>\<open>pd.DataFrame(columns=cols)\<close>: the columns, no row.\<close>

definition DataFrame_columns :: "string list \<Rightarrow> 'f table" where
  "DataFrame_columns cols = map (\<lambda>c. (c, \<lparr>dtype = Object_dtype, vals = []\<rparr>)) cols"

definition nrows :: "'f table \<Rightarrow> nat" where
  "nrows t = (case t of [] \<Rightarrow> 0 | (c, s) # _ \<Rightarrow> length (vals s))"

text \<open>
  \<open>pd.concat([df, pd.DataFrame([row])], ignore_index=True)\<close> for a dict \<open>row\<close>: every
  column of \<open>df\<close> gets the row's value under its label (a missing value when the row has
  none), and a key of the row that labels no column of \<open>df\<close> becomes a new column,
  missing in the rows above.
\<close>

definition append_cell :: "('f, 'b) lib \<Rightarrow> 'f series \<Rightarrow> 'f pyval \<Rightarrow> 'f series" where
  "append_cell L s v = \<lparr>dtype = concat_dtype L (dtype s) (vals s) v, vals = vals s @ [v]\<rparr>"

definition pd_concat :: "('f, 'b) lib \<Rightarrow> 'f table \<Rightarrow> (string \<times> 'f pyval) list \<Rightarrow> 'f table" where
  "pd_concat L t row =
     map (\<lambda>(c, s). (c, append_cell L s (case map_of row c of None \<Rightarrow> PNone | Some v \<Rightarrow> v))) t
     @ map (\<lambda>(c, v). (c, append_cell L \<lparr>dtype = Object_dtype, vals = replicate (nrows t) PNone\<rparr> v))
         (filter (\<lambda>(c, v). c \<notin> set (map fst t)) row)"

subsection \<open>One run of the script\<close>

text \<open>
  What the user did since the last run: the state of the checkbox, the text of the text
  input (the column names, in the header dialogue) and the button pressed, if any.
\<close>

datatype button = CreateHeaders | Back | Next | SaveRow | ResetWizard | JumpFirst | JumpLast

record user_input =
  checked :: bool
  typed :: string
  pressed :: "button option"

text \<open>
  How a run ends: at the end of the script, at \<open>st.rerun()\<close>, or at an exception. The
  changes a run made to the session state before it stopped stay.
\<close>

datatype outcome = Finished | Rerun | Raised

text \<open>\<open>xs[i]\<close> of Python: a negative index counts from the end; \<open>None\<close> is IndexError.\<close>

definition list_getitem :: "'a list \<Rightarrow> int \<Rightarrow> 'a option" where
  "list_getitem xs i =
     (if 0 \<le> i \<and> i < int (length xs) then Some (xs ! nat i)
      else if i < 0 \<and> - int (length xs) \<le> i then Some (xs ! nat (int (length xs) + i))
      else None)"

definition dict_get :: "('k \<rightharpoonup> 'v) \<Rightarrow> 'k \<Rightarrow> 'v \<Rightarrow> 'v" where
  "dict_get m k dflt = (case m k of None \<Rightarrow> dflt | Some v \<Rightarrow> v)"

text \<open>\<open>kinds = {c: infer_input_type(df[c]) for c in cols}\<close>\<close>

definition kinds_of :: "('f, 'b) lib \<Rightarrow> 'f table \<Rightarrow> (string \<rightharpoonup> kind)" where
  "kinds_of L t c = map_option (infer_input_type L) (map_of t c)"

text \<open>Lines 126 to 131: the default of a column the draft does not have yet.\<close>

definition seed_temp_row :: "(string \<rightharpoonup> raw) \<Rightarrow> string \<Rightarrow> kind \<Rightarrow> (string \<rightharpoonup> raw)" where
  "seed_temp_row tr current_col k =
     (if tr current_col = None then
        (if k = KBool then tr(current_col \<mapsto> RBool False) else tr(current_col \<mapsto> RStr []))
      else tr)"

text \<open>
  The loop of lines 171 to 173 over \<open>cols\<close>; the dict \<open>final_row\<close> keeps its keys in the
  order they were first set. \<open>None\<close> is the KeyError of \<open>kinds[c]\<close>.
\<close>

fun final_row_loop ::
  "('f, 'b) lib \<Rightarrow> (string \<rightharpoonup> kind) \<Rightarrow> (string \<rightharpoonup> raw) \<Rightarrow> string list \<Rightarrow>
   (string \<times> 'f pyval) list \<Rightarrow> (string \<times> 'f pyval) list option" where
  "final_row_loop L kinds tr [] row = Some row"
| "final_row_loop L kinds tr (c # cs) row =
     (case kinds c of
        None \<Rightarrow> None
      | Some k \<Rightarrow>
          final_row_loop L kinds tr cs
            (AList.update c (parse_value L (dict_get tr c (RStr [])) k) row))"

text \<open>Lines 170 to 181, the body of the Save branch.\<close>

definition save_row ::
  "('f, 'b) lib \<Rightarrow> string list \<Rightarrow> (string \<rightharpoonup> kind) \<Rightarrow> ('f, 'b) app \<Rightarrow> ('f, 'b) app option" where
  "save_row L cols kinds s =
     (case final_row_loop L kinds (temp_row s) cols [] of
        None \<Rightarrow> None
      | Some final_row \<Rightarrow>
          (let new_df = pd_concat L (df s) final_row
           in case save_csv_atomic L new_df (csv_path s) (disk s) of
                None \<Rightarrow> None
              | Some d \<Rightarrow> Some (reset_wizard True (s\<lparr>disk := d, df := new_df\<rparr>))))"

text \<open>Lines 189 to 197, the three buttons under the form.\<close>

definition utility_row :: "user_input \<Rightarrow> int \<Rightarrow> ('f, 'b) app \<Rightarrow> outcome \<times> ('f, 'b) app" where
  "utility_row inp total_n s =
     (if pressed inp = Some ResetWizard then (Rerun, reset_wizard True s)
      else if pressed inp = Some JumpFirst then (Rerun, s\<lparr>wizard_idx := 0\<rparr>)
      else if pressed inp = Some JumpLast then (Rerun, s\<lparr>wizard_idx := total_n - 1\<rparr>)
      else (Finished, s))"

text \<open>
  Lines 157 to 197, after the form has stored the field's value. A disabled button is
  never reported as pressed: Back is disabled at index 0, Save Row unless the index is
  the last, and the \<open>disabled\<close> expression of Next is always false.
\<close>

definition button_logic ::
  "('f, 'b) lib \<Rightarrow> user_input \<Rightarrow> string list \<Rightarrow> (string \<rightharpoonup> kind) \<Rightarrow> ('f, 'b) app \<Rightarrow>
   outcome \<times> ('f, 'b) app" where
  "button_logic L inp cols kinds s =
     (let total_n = int (length cols);
          idx = wizard_idx s;
          go_back = (pressed inp = Some Back \<and> \<not> (idx = 0));
          go_next = (pressed inp = Some Next);
          save_done = (pressed inp = Some SaveRow \<and> \<not> (idx \<noteq> total_n - 1))
      in if go_back \<and> idx > 0 then (Rerun, s\<lparr>wizard_idx := wizard_idx s - 1\<rparr>)
         else if go_next \<and> idx < total_n - 1 then (Rerun, s\<lparr>wizard_idx := wizard_idx s + 1\<rparr>)
         else if save_done \<and> idx = total_n - 1 then
           (case save_row L cols kinds s of
              None \<Rightarrow> (Raised, s)
            | Some s' \<Rightarrow> utility_row inp total_n s')
         else utility_row inp total_n s)"

text \<open>
  Lines 139 to 147, the widget of the form: the checkbox of a boolean field returns a
  boolean, the text input of any other field a text.
\<close>

definition form_value :: "kind \<Rightarrow> user_input \<Rightarrow> raw" where
  "form_value k inp = (if k = KBool then RBool (checked inp) else RStr (typed inp))"

text \<open>Lines 115 to 197, the branch of a table with columns.\<close>

definition run_wizard :: "('f, 'b) lib \<Rightarrow> user_input \<Rightarrow> ('f, 'b) app \<Rightarrow> outcome \<times> ('f, 'b) app" where
  "run_wizard L inp s =
     (let cols = map fst (df s);
          kinds = kinds_of L (df s)
      in case list_getitem cols (wizard_idx s) of
           None \<Rightarrow> (Raised, s)
         | Some current_col \<Rightarrow>
             (case kinds current_col of
                None \<Rightarrow> (Raised, s)
              | Some k \<Rightarrow>
                  (let val = form_value k inp;
                       tr = (seed_temp_row (temp_row s) current_col k)(current_col \<mapsto> val)
                   in button_logic L inp cols kinds (s\<lparr>temp_row := tr\<rparr>))))"

text \<open>Lines 98 to 113, the header dialogue of a table without columns.\<close>

definition run_headers :: "('f, 'b) lib \<Rightarrow> user_input \<Rightarrow> ('f, 'b) app \<Rightarrow> outcome \<times> ('f, 'b) app" where
  "run_headers L inp s =
     (if pressed inp = Some CreateHeaders then
        (let cols = filter (\<lambda>c. c \<noteq> []) (map py_strip (py_split CHR '','' (typed inp)))
         in if cols = [] then (Finished, s)
            else (let s1 = s\<lparr>df := DataFrame_columns cols\<rparr>
                  in case save_csv_atomic L (df s1) (csv_path s1) (disk s1) of
                       None \<Rightarrow> (Raised, s1)
                     | Some d \<Rightarrow> (Rerun, reset_wizard True (s1\<lparr>disk := d\<rparr>))))
      else (Finished, s))"

definition run :: "('f, 'b) lib \<Rightarrow> user_input \<Rightarrow> ('f, 'b) app \<Rightarrow> outcome \<times> ('f, 'b) app" where
  "run L inp s = (if length (df s) = 0 then run_headers L inp s else run_wizard L inp s)"

text \<open>The states of a session: the first state, and the state after any run from one.\<close>

inductive reachable :: "('f, 'b) lib \<Rightarrow> ('f, 'b) app \<Rightarrow> bool" for L :: "('f, 'b) lib" where
  start: "reachable L (startup L d)"
| step: "reachable L s \<Longrightarrow> reachable L (snd (run L inp s))"

subsection \<open>An instance of the parameters\<close>

text \<open>
  To run the model on concrete tables the parameters are instantiated for the tables this
  program builds from whole numbers, booleans and text. A float is a whole number, given
  by the integer it equals (\<open>float\<close> reads \<open>5\<close>; texts such as \<open>2.5\<close> or \<open>1e3\<close> are outside
  the instance). The text of a CSV file is given by its lines, a line by its cells:
  quoting is the business of the writer and the reader, which undo each other's.
\<close>

definition digit_char :: "nat \<Rightarrow> char" where
  "digit_char n = ''0123456789'' ! n"

function show_nat :: "nat \<Rightarrow> string" where
  "show_nat n = (if n < 10 then [digit_char n] else show_nat (n div 10) @ [digit_char (n mod 10)])"
  by pat_completeness auto
termination
  by (relation "measure id") auto

declare show_nat.simps [simp del]

definition show_int :: "int \<Rightarrow> string" where
  "show_int i = (if i < 0 then CHR ''-'' # show_nat (nat (- i)) else show_nat (nat i))"

text \<open>A cell as \<open>to_csv\<close> writes it: a missing value is the empty text.\<close>

fun render_cell :: "int pyval \<Rightarrow> string" where
  "render_cell PNone = []"
| "render_cell (PBool b) = (if b then ''True'' else ''False'')"
| "render_cell (PInt i) = show_int i"
| "render_cell (PFloat x) = show_int x @ ''.0''"
| "render_cell (PStr s) = s"

definition to_csv_lines :: "int table \<Rightarrow> string list list" where
  "to_csv_lines t =
     map fst t #
     map (\<lambda>i. map (\<lambda>(c, s). if i < length (vals s) then render_cell (vals s ! i) else []) t)
       [0..<nrows t]"

text \<open>The texts \<open>read_csv\<close> takes for a missing value whatever \<open>na_values\<close> it is given.\<close>

definition pandas_default_na :: "string list" where
  "pandas_default_na =
     [[], ''#N/A'', ''#N/A N/A'', ''#NA'', ''-1.#IND'', ''-1.#QNAN'', ''-NaN'', ''-nan'',
      ''1.#IND'', ''1.#QNAN'', ''<NA>'', ''N/A'', ''NA'', ''NULL'', ''NaN'', ''None'',
      ''n/a'', ''nan'', ''null'']"

definition na_filter :: "string option list \<Rightarrow> string \<Rightarrow> string option" where
  "na_filter na cell =
     (if Some cell \<in> set na \<or> cell \<in> set pandas_default_na then None else Some cell)"

text \<open>A cell that reads as a whole number: an optional sign and digits.\<close>

definition csv_int :: "string \<Rightarrow> int option" where
  "csv_int cell =
     (let neg = (case cell of [] \<Rightarrow> False | c # r \<Rightarrow> c = CHR ''-'');
          body = (case cell of [] \<Rightarrow> []
                  | c # r \<Rightarrow> if c = CHR ''-'' \<or> c = CHR ''+'' then r else cell)
      in if body \<noteq> [] \<and> list_all is_digit body
         then Some (if neg then - decimal body else decimal body)
         else None)"

text \<open>A cell that reads as a float of the instance: a whole number, or one followed by \<open>.0\<close>.\<close>

definition csv_float :: "string \<Rightarrow> int option" where
  "csv_float cell =
     (case csv_int cell of
        Some i \<Rightarrow> Some i
      | None \<Rightarrow>
          if 2 \<le> length cell \<and> drop (length cell - 2) cell = ''.0''
          then csv_int (take (length cell - 2) cell)
          else None)"

definition csv_bool :: "string \<Rightarrow> bool option" where
  "csv_bool cell =
     (if cell \<in> set [''True'', ''TRUE'', ''true''] then Some True
      else if cell \<in> set [''False'', ''FALSE'', ''false''] then Some False
      else None)"

definition all_read :: "(string \<Rightarrow> 'a option) \<Rightarrow> string option list \<Rightarrow> bool" where
  "all_read rd cells = list_all (\<lambda>c. case c of None \<Rightarrow> True | Some x \<Rightarrow> rd x \<noteq> None) cells"

definition read_cells :: "(string \<Rightarrow> 'v pyval option) \<Rightarrow> string option list \<Rightarrow> 'v pyval list" where
  "read_cells rd cells =
     map (\<lambda>c. case c of None \<Rightarrow> PNone
               | Some x \<Rightarrow> (case rd x of None \<Rightarrow> PNone | Some v \<Rightarrow> v)) cells"

text \<open>
  The dtype the reader settles on for a column, from its cells after the missing ones are
  marked: whole numbers (floats, once a cell is missing), else floats, else booleans
  (objects, once a cell is missing), else text.
\<close>

definition infer_column :: "string option list \<Rightarrow> int series" where
  "infer_column cells =
     (if cells = [] then \<lparr>dtype = Object_dtype, vals = []\<rparr>
      else if all_read csv_int cells \<and> None \<notin> set cells then
        \<lparr>dtype = Integer_dtype, vals = read_cells (\<lambda>x. map_option PInt (csv_int x)) cells\<rparr>
      else if all_read csv_float cells then
        \<lparr>dtype = Float_dtype, vals = read_cells (\<lambda>x. map_option PFloat (csv_float x)) cells\<rparr>
      else if all_read csv_bool cells then
        \<lparr>dtype = (if None \<in> set cells then Object_dtype else Bool_dtype),
         vals = read_cells (\<lambda>x. map_option PBool (csv_bool x)) cells\<rparr>
      else \<lparr>dtype = Object_dtype, vals = read_cells (\<lambda>x. Some (PStr x)) cells\<rparr>)"

text \<open>
  The reader: the first line is the header, blank lines are skipped, and a file without
  a header cell has no columns to parse, which raises. Labels are taken as written
  (pandas renames an empty or a repeated label).
\<close>

definition read_csv_lines :: "string option list \<Rightarrow> string list list \<Rightarrow> int table option" where
  "read_csv_lines na txt =
     (case txt of
        [] \<Rightarrow> None
      | header # body \<Rightarrow>
          if header = [] then None
          else Some (map (\<lambda>i. (header ! i,
                                infer_column
                                  (map (\<lambda>line. na_filter na (if i < length line then line ! i else []))
                                     (filter (\<lambda>line. line \<noteq> []) body))))
                       [0..<length header]))"

definition value_dtype :: "'f pyval \<Rightarrow> dtype" where
  "value_dtype v =
     (case v of PBool b \<Rightarrow> Bool_dtype | PInt i \<Rightarrow> Integer_dtype | PFloat x \<Rightarrow> Float_dtype
      | _ \<Rightarrow> Object_dtype)"

text \<open>
  The dtype of a column after a value is appended, as pandas 2 finds it for these four
  classes: an empty column and a missing value do not count, a missing value turns whole
  numbers into floats and booleans into objects, whole numbers and floats meet in
  floats, every other mix in objects.
\<close>

definition plain_concat_dtype :: "dtype \<Rightarrow> int pyval list \<Rightarrow> int pyval \<Rightarrow> dtype" where
  "plain_concat_dtype d vs v =
     (if vs = [] then value_dtype v
      else if v = PNone then
        (if d = Integer_dtype then Float_dtype else if d = Bool_dtype then Object_dtype else d)
      else if d = value_dtype v then d
      else if (d = Integer_dtype \<and> value_dtype v = Float_dtype)
              \<or> (d = Float_dtype \<and> value_dtype v = Integer_dtype) then Float_dtype
      else Object_dtype)"

definition numeric_value :: "int pyval \<Rightarrow> bool" where
  "numeric_value v = (case v of PStr s \<Rightarrow> csv_float (py_strip s) \<noteq> None | _ \<Rightarrow> True)"

definition plain_lib :: "(int, string list) lib" where
  "plain_lib =
     \<lparr>py_float = py_int 0,
      is_nan = (\<lambda>x. False),
      int_max_str_digits = 4300,
      to_numeric_ok = list_all numeric_value,
      concat_dtype = plain_concat_dtype,
      to_csv = to_csv_lines,
      read_csv = read_csv_lines\<rparr>"

subsection \<open>The example of the specification\<close>

text \<open>
  A table with the columns A, of kind int, and B, of kind text, read from the disk at the
  first run; the user enters 5 for A, goes on to B, enters hello and saves.
\<close>

definition example_disk :: "string list disk" where
  "example_disk = [DEFAULT_CSV_PATH \<mapsto> [[''A'', ''B''], [''1'', ''x'']]]"

definition example_start :: "(int, string list) app" where
  "example_start = startup plain_lib example_disk"

definition example_at_B :: "(int, string list) app" where
  "example_at_B =
     snd (run plain_lib \<lparr>checked = False, typed = ''5'', pressed = Some Next\<rparr> example_start)"


subsection \<open>The transitions of the wizard, as the specification lists them\<close>

text \<open>
  The index after a transition from index \<open>i\<close> of a table with \<open>n\<close> columns: Back goes
  to \<open>i - 1\<close> only if \<open>i > 0\<close>, Next to \<open>i + 1\<close> only if \<open>i < n - 1\<close>, Save resets to 0
  and is permitted only at \<open>n - 1\<close>, Reset and Jump to first go to 0, Jump to last to
  \<open>n - 1\<close>. This definition follows the specification, not the code.
\<close>

definition spec_next_idx :: "button option \<Rightarrow> int \<Rightarrow> int \<Rightarrow> int" where
  "spec_next_idx b n i =
     (if b = Some Back then (if 0 < i then i - 1 else i)
      else if b = Some Next then (if i < n - 1 then i + 1 else i)
      else if b = Some SaveRow then (if i = n - 1 then 0 else i)
      else if b = Some ResetWizard \<or> b = Some JumpFirst then 0
      else if b = Some JumpLast then n - 1
      else i)"

text \<open>
  The invariant of the wizard position: an index into the columns, and 0 while the table
  has none.
\<close>

definition position_ok :: "('f, 'b) app \<Rightarrow> bool" where
  "position_ok s =
     ((df s = [] \<and> wizard_idx s = 0)
      \<or> (0 \<le> wizard_idx s \<and> wizard_idx s < int (length (df s))))"

section \<open>Properties\<close>

subsection \<open>The value parser\<close>

lemma py_strip_abc: "py_strip ''abc'' = ''abc''"
  by (simp add: py_strip_def py_isspace_def)

lemma dropWhile_fix: "xs = [] \<or> \<not> P (hd xs) \<Longrightarrow> dropWhile P xs = xs"
  by (cases xs) auto

lemma dropWhile_head: "dropWhile P xs = [] \<or> \<not> P (hd (dropWhile P xs))"
  by (metis hd_dropWhile)

lemma strip_tail_head:
  assumes "u = [] \<or> \<not> P (hd u)"
  shows "rev (dropWhile P (rev u)) = [] \<or> \<not> P (hd (rev (dropWhile P (rev u))))"
proof (cases u)
  case Nil
  then show ?thesis by simp
next
  case (Cons a r)
  with assms have na: "\<not> P a" by simp
  have "dropWhile P (rev r @ [a]) = dropWhile P (rev r) @ [a]"
    using na by (simp add: dropWhile_append3)
  then show ?thesis using Cons na by simp
qed

text \<open>Trimming a trimmed text changes nothing.\<close>

lemma py_strip_idem: "py_strip (py_strip s) = py_strip s"
proof -
  let ?P = py_isspace
  let ?u = "dropWhile ?P s"
  let ?t = "rev (dropWhile ?P (rev ?u))"
  have "?t = [] \<or> \<not> ?P (hd ?t)"
    by (rule strip_tail_head) (rule dropWhile_head)
  then have "dropWhile ?P ?t = ?t" by (rule dropWhile_fix)
  then show ?thesis by (simp add: py_strip_def)
qed

lemma py_strip_Nil: "py_strip [] = []"
  by (simp add: py_strip_def)

lemma py_int_abc: "py_int lim ''abc'' = None"
  by (simp add: py_int_def py_strip_def py_isspace_def is_digit_def)

lemma digit_char_digit: "d < 10 \<Longrightarrow> is_digit (digit_char d) \<and> digit_val (digit_char d) = int d"
proof -
  assume "d < 10"
  then have "d \<in> {0, 1, 2, 3, 4, 5, 6, 7, 8, 9}" by auto
  then show ?thesis
    by (auto simp: digit_char_def is_digit_def digit_val_def)
qed

lemma show_nat_digits: "show_nat n \<noteq> [] \<and> list_all is_digit (show_nat n)"
proof (induction n rule: show_nat.induct)
  case (1 n)
  show ?case
  proof (cases "n < 10")
    case True
    then show ?thesis by (simp add: show_nat.simps [of n] digit_char_digit)
  next
    case False
    with 1 show ?thesis by (simp add: show_nat.simps [of n] digit_char_digit)
  qed
qed

lemma decimal_snoc: "decimal (ds @ [c]) = 10 * decimal ds + digit_val c"
  by (simp add: decimal_def)

lemma decimal_show_nat: "decimal (show_nat n) = int n"
proof (induction n rule: show_nat.induct)
  case (1 n)
  show ?case
  proof (cases "n < 10")
    case True
    then show ?thesis by (simp add: show_nat.simps [of n] decimal_def digit_char_digit)
  next
    case False
    with 1 have "decimal (show_nat (n div 10)) = int (n div 10)" by simp
    with False show ?thesis
      by (simp add: show_nat.simps [of n] decimal_snoc digit_char_digit zdiv_int zmod_int)
  qed
qed

lemma is_digit_not_underscore: "is_digit c \<Longrightarrow> c \<noteq> CHR ''_''"
  by (auto simp: is_digit_def)

lemma digit_run_digits: "ds \<noteq> [] \<Longrightarrow> list_all is_digit ds \<Longrightarrow> digit_run ds = Some ds"
  by (induction ds rule: digit_run.induct) (auto simp: is_digit_not_underscore)

lemma is_digit_not_space: "is_digit c \<Longrightarrow> \<not> py_isspace c"
  by (auto simp: is_digit_def py_isspace_def)

lemma py_strip_keep:
  assumes "s \<noteq> []" and "\<not> py_isspace (hd s)" and "\<not> py_isspace (last s)"
  shows "py_strip s = s"
proof -
  from assms have a: "dropWhile py_isspace s = s" by (cases s) auto
  from assms have "rev s \<noteq> []" and "\<not> py_isspace (hd (rev s))" by (simp_all add: hd_rev)
  then have "dropWhile py_isspace (rev s) = rev s" by (cases "rev s") auto
  with a show ?thesis by (simp add: py_strip_def)
qed

lemma py_strip_show_int: "py_strip (show_int i) = show_int i"
proof -
  have d: "show_nat n \<noteq> [] \<and> \<not> py_isspace (hd (show_nat n)) \<and> \<not> py_isspace (last (show_nat n))" for n
    using show_nat_digits [of n]
    by (cases "show_nat n") (auto simp: is_digit_not_space list_all_iff)
  show ?thesis
    using d [of "nat i"] d [of "nat (- i)"]
    by (intro py_strip_keep) (auto simp: show_int_def py_isspace_def)
qed

lemma hd_show_nat_not_sign: "hd (show_nat n) \<noteq> CHR ''-'' \<and> hd (show_nat n) \<noteq> CHR ''+''"
  using show_nat_digits [of n] by (cases "show_nat n") (auto simp: is_digit_def)

text \<open>\<open>int\<close> reads the decimal text of an integer back, when the digit limit is off.\<close>

lemma py_int_show_int: "py_int 0 (show_int i) = Some i"
proof (cases "i < 0")
  case True
  then show ?thesis
    using show_nat_digits [of "nat (- i)"]
    by (simp add: py_int_def py_strip_show_int Let_def)
       (simp add: show_int_def digit_run_digits decimal_show_nat)
next
  case False
  obtain c r where cr: "show_nat (nat i) = c # r"
    using show_nat_digits [of "nat i"] by (cases "show_nat (nat i)") auto
  with hd_show_nat_not_sign [of "nat i"] have "c \<noteq> CHR ''-''" "c \<noteq> CHR ''+''" by simp_all
  with False cr show ?thesis
    using show_nat_digits [of "nat i"] decimal_show_nat [of "nat i"]
    by (simp add: py_int_def py_strip_show_int Let_def)
       (simp add: show_int_def digit_run_digits)
qed

lemma show_int_nonempty: "show_int i \<noteq> []"
  using show_nat_digits [of "nat i"] by (simp add: show_int_def)

text \<open>
  Claim C4. For the kinds int and float, \<open>parse_value\<close> works on the trimmed text of the
  raw value. A null value and a value whose trimmed text is empty give null; otherwise
  the result is the number that \<open>int\<close> (for int) or \<open>float\<close> (for float) reads from the
  trimmed text, and null when that fails. Only the trimmed text counts: a text and its
  trimmed form parse alike. The empty text gives null for both kinds, and \<open>abc\<close> gives
  null for int. The number parsed for int is the number written: the decimal text of
  an integer parses to that integer (with the interpreter's digit limit off).
\<close>

theorem parse_value_numeric:
  "(v = RNone \<or> py_strip (py_str v) = [] \<longrightarrow>
      parse_value L v KInt = PNone \<and> parse_value L v KFloat = PNone)
   \<and> (v \<noteq> RNone \<and> py_strip (py_str v) \<noteq> [] \<longrightarrow>
        parse_value L v KInt =
          (case py_int (int_max_str_digits L) (py_strip (py_str v)) of
             None \<Rightarrow> PNone | Some n \<Rightarrow> PInt n)
        \<and> parse_value L v KFloat =
          (case py_float L (py_strip (py_str v)) of None \<Rightarrow> PNone | Some x \<Rightarrow> PFloat x))
   \<and> parse_value L (RStr s) KInt = parse_value L (RStr (py_strip s)) KInt
   \<and> parse_value L (RStr s) KFloat = parse_value L (RStr (py_strip s)) KFloat
   \<and> parse_value L (RStr []) KInt = PNone
   \<and> parse_value L (RStr []) KFloat = PNone
   \<and> parse_value L (RStr ''abc'') KInt = PNone
   \<and> (int_max_str_digits L = 0 \<longrightarrow> parse_value L (RStr (show_int i)) KInt = PInt i)"
  by (simp add: parse_value_def py_strip_idem py_strip_Nil py_strip_abc py_int_abc
      py_strip_show_int py_int_show_int show_int_nonempty)

theorem parse_value_numeric_witness:
  "parse_value plain_lib (RStr '' 42 '') KInt = PInt 42
   \<and> parse_value plain_lib (RStr '' 42 '') KFloat = PFloat 42
   \<and> parse_value plain_lib (RStr ''4 2'') KInt = PNone
   \<and> parse_value plain_lib (RBool True) KInt = PNone"
  using parse_value_numeric [of "RStr '' 42 ''" plain_lib]
    parse_value_numeric [of "RStr ''4 2''" plain_lib]
    parse_value_numeric [of "RBool True" plain_lib]
  by (simp add: plain_lib_def py_strip_def py_isspace_def py_int_def is_digit_def
      decimal_def digit_val_def)

text \<open>
  Claim C5, as the specification states it, fails for the text \<open>False\<close>: for the kind
  bool \<open>parse_value\<close> returns \<open>bool(value)\<close>, the truth value of the raw value, and a
  text that is not empty is true.
\<close>

theorem parse_value_bool_text_False:
  "parse_value plain_lib (RStr ''False'') KBool = PBool True
   \<and> parse_value plain_lib (RStr ''False'') KBool \<noteq> PBool False"
  by (simp add: parse_value_def)

text \<open>
  Claim C5, amended. For the kind bool, \<open>parse_value\<close> returns a raw boolean itself (so
  the boolean false, the state of an unticked checkbox, gives false); a raw text gives
  true exactly when it is not empty, and null gives false.
\<close>

theorem parse_value_bool:
  "parse_value L (RBool b) KBool = PBool b
   \<and> parse_value L (RBool False) KBool = PBool False
   \<and> parse_value L (RStr s) KBool = PBool (s \<noteq> [])
   \<and> parse_value L RNone KBool = PBool False"
  by (simp add: parse_value_def)

theorem parse_value_bool_witness:
  "parse_value plain_lib (RBool False) KBool = PBool False
   \<and> parse_value plain_lib (RBool True) KBool = PBool True
   \<and> parse_value plain_lib (RStr []) KBool = PBool False"
  using parse_value_bool [of plain_lib False] parse_value_bool [of plain_lib True "[]"]
  by simp

subsection \<open>The field typer\<close>



subsection \<open>The draft row\<close>

text \<open>
  Claim C9. When the wizard enters a column that the draft row does not have, the draft
  gets the boolean false for it if the column's kind is bool and the empty text for any
  other kind; a draft that has the column stays as it is, and no other column of the
  draft is touched.
\<close>

theorem seed_temp_row_default:
  "(tr c = None \<longrightarrow>
      seed_temp_row tr c k c = Some (if k = KBool then RBool False else RStr []))
   \<and> (tr c \<noteq> None \<longrightarrow> seed_temp_row tr c k = tr)
   \<and> (c' \<noteq> c \<longrightarrow> seed_temp_row tr c k c' = tr c')"
  by (simp add: seed_temp_row_def)

theorem seed_temp_row_default_witness:
  "seed_temp_row Map.empty ''A'' KBool ''A'' = Some (RBool False)
   \<and> seed_temp_row Map.empty ''A'' KInt ''A'' = Some (RStr [])
   \<and> seed_temp_row [''A'' \<mapsto> RStr ''5''] ''A'' KInt = [''A'' \<mapsto> RStr ''5'']
   \<and> seed_temp_row [''A'' \<mapsto> RStr ''5''] ''B'' KText ''A'' = Some (RStr ''5'')"
  using seed_temp_row_default [of Map.empty "''A''" KBool "''B''"]
    seed_temp_row_default [of Map.empty "''A''" KInt "''B''"]
    seed_temp_row_default [of "[''A'' \<mapsto> RStr ''5'']" "''A''" KInt "''B''"]
    seed_temp_row_default [of "[''A'' \<mapsto> RStr ''5'']" "''B''" KText "''A''"]
  by simp

subsection \<open>The table store\<close>

lemma show_nat_digit: "n < 10 \<Longrightarrow> show_nat n = [digit_char n]"
  by (simp add: show_nat.simps)

text \<open>
  Claim C8. \<open>load_csv\<close> always returns a table. When no file is at the path, it writes
  there what \<open>to_csv\<close> writes for the table without columns and returns that table. When
  a file is there and \<open>read_csv\<close> parses it, it returns the parsed table; when \<open>read_csv\<close>
  raises, it returns the table without columns. In the last two cases the disk is as it
  was.
\<close>

theorem load_csv_cases:
  "(d path = None \<longrightarrow> load_csv L path d = ([], d(path \<mapsto> to_csv L [])))
   \<and> (d path = Some tx \<and> read_csv L NA_VALUES tx = Some t \<longrightarrow> load_csv L path d = (t, d))
   \<and> (d path = Some tx \<and> read_csv L NA_VALUES tx = None \<longrightarrow> load_csv L path d = ([], d))"
  by (simp add: load_csv_def)

theorem load_csv_cases_witness:
  "fst (load_csv plain_lib ''db.csv'' Map.empty) = []
   \<and> snd (load_csv plain_lib ''db.csv'' Map.empty) ''db.csv'' = Some [[]]
   \<and> load_csv plain_lib ''db.csv'' [''db.csv'' \<mapsto> [[''A'', ''B''], [''1'', ''x'']]]
       = ([(''A'', \<lparr>dtype = Integer_dtype, vals = [PInt 1]\<rparr>),
           (''B'', \<lparr>dtype = Object_dtype, vals = [PStr ''x'']\<rparr>)],
          [''db.csv'' \<mapsto> [[''A'', ''B''], [''1'', ''x'']]])
   \<and> load_csv plain_lib ''db.csv'' [''db.csv'' \<mapsto> []] = ([], [''db.csv'' \<mapsto> []])"
  using load_csv_cases [where L = plain_lib and path = "''db.csv''" and d = "Map.empty"]
    load_csv_cases [where L = plain_lib and path = "''db.csv''"
      and d = "[''db.csv'' \<mapsto> [[''A'', ''B''], [''1'', ''x'']]]"
      and tx = "[[''A'', ''B''], [''1'', ''x'']]"
      and t = "[(''A'', \<lparr>dtype = Integer_dtype, vals = [PInt 1]\<rparr>),
           (''B'', \<lparr>dtype = Object_dtype, vals = [PStr ''x'']\<rparr>)]"]
    load_csv_cases [where L = plain_lib and path = "''db.csv''" and d = "[''db.csv'' \<mapsto> []]"
      and tx = "[]"]
  by (simp add: plain_lib_def to_csv_lines_def nrows_def read_csv_lines_def NA_VALUES_def
      na_filter_def pandas_default_na_def infer_column_def all_read_def read_cells_def
      csv_int_def csv_float_def csv_bool_def is_digit_def decimal_def digit_val_def)

lemma write_steps_last: "last (write_steps d p tx) = d(p \<mapsto> tx)"
  by (simp add: write_steps_def last_map del: upt_Suc)

lemma write_steps_other: "q \<noteq> p \<Longrightarrow> list_all (\<lambda>d'. d' q = d q) (write_steps d p tx)"
  by (simp add: write_steps_def list_all_iff)

text \<open>The temporary file is never the target, so the save always goes through.\<close>

lemma save_csv_atomic_eq:
  "save_csv_atomic L t path d = Some ((d(path @ ''.tmp'' := None))(path \<mapsto> to_csv L t))"
  by (simp add: save_csv_atomic_def os_replace_def Let_def)

lemma save_csv_steps_eq:
  "save_csv_steps L t path d =
     write_steps d (path @ ''.tmp'') (to_csv L t)
     @ [(d(path @ ''.tmp'' := None))(path \<mapsto> to_csv L t)]"
  by (simp add: save_csv_steps_def Let_def write_steps_last os_replace_def)

text \<open>
  Claim C7. \<open>save_csv_atomic\<close> writes the text of the table to the sibling file
  \<open>path.tmp\<close> and then renames it over the target. On every disk that can be observed
  before the rename the target is as it was, while the sibling holds a growing part of
  the text; on the disk after the rename, which is the result of \<open>save_csv_atomic\<close>, the
  target holds the whole text and the sibling is gone. So the target holds the old
  contents or the new ones, whole, on every disk.
\<close>

theorem save_csv_atomic_never_partial:
  "Some (last (save_csv_steps L t path d)) = save_csv_atomic L t path d
   \<and> list_all (\<lambda>d'. d' path = d path) (butlast (save_csv_steps L t path d))
   \<and> last (save_csv_steps L t path d) path = Some (to_csv L t)
   \<and> list_all (\<lambda>d'. d' path = d path \<or> d' path = Some (to_csv L t))
        (save_csv_steps L t path d)
   \<and> map (\<lambda>d'. d' (path @ ''.tmp'')) (butlast (save_csv_steps L t path d))
        = map (\<lambda>n. Some (take n (to_csv L t))) [0..<Suc (length (to_csv L t))]
   \<and> last (save_csv_steps L t path d) (path @ ''.tmp'') = None"
proof -
  let ?tmp = "path @ ''.tmp''"
  have other: "list_all (\<lambda>d'. d' path = d path) (write_steps d ?tmp (to_csv L t))"
    by (rule write_steps_other) simp
  then have weak: "list_all (\<lambda>d'. d' path = d path \<or> d' path = Some (to_csv L t))
      (write_steps d ?tmp (to_csv L t))"
    by (simp add: list_all_iff)
  have tmps: "map (\<lambda>d'. d' ?tmp) (write_steps d ?tmp (to_csv L t))
      = map (\<lambda>n. Some (take n (to_csv L t))) [0..<Suc (length (to_csv L t))]"
    by (simp add: write_steps_def del: upt_Suc)
  show ?thesis
    using other weak tmps
    by (simp add: save_csv_steps_eq save_csv_atomic_eq del: upt_Suc)
qed

theorem save_csv_atomic_never_partial_witness:
  "map (\<lambda>d'. d' ''db.csv'')
     (save_csv_steps plain_lib [(''A'', \<lparr>dtype = Integer_dtype, vals = [PInt 7]\<rparr>)] ''db.csv''
        [''db.csv'' \<mapsto> [[''A'']]])
   = [Some [[''A'']], Some [[''A'']], Some [[''A'']], Some [[''A''], [''7'']]]"
  using save_csv_atomic_never_partial [where L = plain_lib and path = "''db.csv''"
      and d = "[''db.csv'' \<mapsto> [[''A'']]]"
      and t = "[(''A'', \<lparr>dtype = Integer_dtype, vals = [PInt 7]\<rparr>)]"]
  by (simp add: save_csv_steps_eq write_steps_def plain_lib_def to_csv_lines_def nrows_def
      show_int_def show_nat_digit digit_char_def)

subsection \<open>The wizard\<close>

lemma seed_overwrite: "(seed_temp_row tr c k)(c \<mapsto> v) = tr(c \<mapsto> v)"
  by (simp add: seed_temp_row_def)

lemma final_row_loop_Some:
  "(\<And>c. c \<in> set cs \<Longrightarrow> kinds c \<noteq> None) \<Longrightarrow> \<exists>r. final_row_loop L kinds tr cs row = Some r"
proof (induction cs arbitrary: row)
  case Nil
  then show ?case by simp
next
  case (Cons a cs)
  from Cons.prems [of a] obtain k where k: "kinds a = Some k" by auto
  have "\<exists>r. final_row_loop L kinds tr cs
      (AList.update a (parse_value L (dict_get tr a (RStr [])) k) row) = Some r"
    by (rule Cons.IH) (simp add: Cons.prems)
  then show ?case using k by simp
qed

lemma final_row_loop_keys:
  "final_row_loop L kinds tr cs row = Some r \<Longrightarrow> fst ` set r = fst ` set row \<union> set cs"
  by (induction cs arbitrary: row) (auto split: option.splits simp: dom_update)

lemma final_row_loop_lookup:
  "final_row_loop L kinds tr cs row = Some r \<Longrightarrow>
   map_of r c =
     (if c \<in> set cs then map_option (parse_value L (dict_get tr c (RStr []))) (kinds c)
      else map_of row c)"
proof (induction cs arbitrary: row)
  case Nil
  then show ?case by simp
next
  case (Cons a cs)
  then obtain k where k: "kinds a = Some k" by (auto split: option.splits)
  with Cons.prems have
    "final_row_loop L kinds tr cs (AList.update a (parse_value L (dict_get tr a (RStr [])) k) row) = Some r"
    by simp
  from Cons.IH [OF this] show ?case using k by (auto simp: update_conv')
qed

lemma kinds_of_label: "c \<in> set (map fst t) \<Longrightarrow> kinds_of L t c \<noteq> None"
  by (auto simp: kinds_of_def map_of_eq_None_iff)


lemma pd_concat_known_keys:
  "fst ` set row \<subseteq> set (map fst t) \<Longrightarrow>
   pd_concat L t row =
     map (\<lambda>(c, s). (c, append_cell L s (case map_of row c of None \<Rightarrow> PNone | Some v \<Rightarrow> v))) t"
proof -
  assume sub: "fst ` set row \<subseteq> set (map fst t)"
  have known: "c \<in> set (map fst t)" if "(c, v) \<in> set row" for c v
  proof -
    from that have "fst (c, v) \<in> fst ` set row" by (rule imageI)
    with sub show ?thesis by auto
  qed
  have "filter (\<lambda>(c, v). c \<notin> set (map fst t)) row = []"
    unfolding filter_empty_conv using known by blast
  then show ?thesis by (simp add: pd_concat_def)
qed


lemma pd_concat_final_row:
  assumes r: "final_row_loop L (kinds_of L t) tr (map fst t) [] = Some r"
  shows "pd_concat L t r =
     map (\<lambda>(c, sr). (c, append_cell L sr
            (case kinds_of L t c of
               None \<Rightarrow> PNone
             | Some k \<Rightarrow> parse_value L (dict_get tr c (RStr [])) k))) t"
proof -
  have keys: "fst ` set r \<subseteq> set (map fst t)"
    using final_row_loop_keys [OF r] by simp
  have look: "map_of r c = map_option (parse_value L (dict_get tr c (RStr []))) (kinds_of L t c)"
    if "c \<in> set (map fst t)" for c
    using final_row_loop_lookup [OF r, of c] that by simp
  have "(case map_of r c of None \<Rightarrow> PNone | Some v \<Rightarrow> v) =
        (case kinds_of L t c of
           None \<Rightarrow> PNone
         | Some k \<Rightarrow> parse_value L (dict_get tr c (RStr [])) k)"
    if "(c, sr) \<in> set t" for c sr
  proof -
    from that have "c \<in> set (map fst t)" by force
    from look [OF this] show ?thesis by (simp split: option.splits)
  qed
  then show ?thesis
    unfolding pd_concat_known_keys [OF keys] by (auto intro!: map_cong)
qed

lemma final_row_loop_frame:
  "\<exists>r. final_row_loop L (kinds_of L t) tr (map fst t) [] = Some r"
  by (rule final_row_loop_Some) (rule kinds_of_label)

lemma save_row_eq:
  "save_row L (map fst (df s)) (kinds_of L (df s)) s =
     Some (s\<lparr>wizard_idx := 0, temp_row := Map.empty,
             df := map (\<lambda>(c, sr). (c, append_cell L sr
                     (case kinds_of L (df s) c of
                        None \<Rightarrow> PNone
                      | Some k \<Rightarrow> parse_value L (dict_get (temp_row s) c (RStr [])) k))) (df s),
             disk := ((disk s)(csv_path s @ ''.tmp'' := None))
                       (csv_path s \<mapsto> to_csv L
                         (map (\<lambda>(c, sr). (c, append_cell L sr
                            (case kinds_of L (df s) c of
                               None \<Rightarrow> PNone
                             | Some k \<Rightarrow> parse_value L (dict_get (temp_row s) c (RStr [])) k)))
                            (df s)))\<rparr>)"
proof -
  obtain r where r: "final_row_loop L (kinds_of L (df s)) (temp_row s) (map fst (df s)) [] = Some r"
    using final_row_loop_frame by blast
  show ?thesis
    by (simp add: save_row_def r pd_concat_final_row [OF r] save_csv_atomic_eq reset_wizard_def Let_def)
qed


lemma list_getitem_valid:
  "0 \<le> i \<Longrightarrow> i < int (length xs) \<Longrightarrow> list_getitem xs i = Some (xs ! nat i)"
  by (simp add: list_getitem_def)

text \<open>At a valid position the run reaches the button logic, with the field's value stored.\<close>

lemma run_wizard_at:
  assumes "0 \<le> wizard_idx s" and "wizard_idx s < int (length (df s))"
  obtains k where "kinds_of L (df s) (fst (df s ! nat (wizard_idx s))) = Some k"
    and "run L inp s =
      button_logic L inp (map fst (df s)) (kinds_of L (df s))
        (s\<lparr>temp_row := (temp_row s)(fst (df s ! nat (wizard_idx s)) \<mapsto> form_value k inp)\<rparr>)"
proof -
  let ?c = "fst (df s ! nat (wizard_idx s))"
  from assms have n: "nat (wizard_idx s) < length (df s)" by simp
  then have "?c \<in> set (map fst (df s))" by simp
  then obtain k where k: "kinds_of L (df s) ?c = Some k"
    using kinds_of_label [of ?c "df s" L] by auto
  have g: "list_getitem (map fst (df s)) (wizard_idx s) = Some ?c"
    using assms n by (simp add: list_getitem_valid)
  from assms have "df s \<noteq> []" by auto
  then have "run L inp s =
      button_logic L inp (map fst (df s)) (kinds_of L (df s))
        (s\<lparr>temp_row := (temp_row s)(?c \<mapsto> form_value k inp)\<rparr>)"
    by (simp add: run_def run_wizard_def g k seed_overwrite Let_def)
  with k show ?thesis by (rule that)
qed

text \<open>The index after the button logic, button by button, and the columns, which stay.\<close>

lemma button_logic_idx:
  "wizard_idx (snd (button_logic L inp (map fst (df s)) (kinds_of L (df s)) s))
     = spec_next_idx (pressed inp) (int (length (df s))) (wizard_idx s)
   \<and> map fst (df (snd (button_logic L inp (map fst (df s)) (kinds_of L (df s)) s)))
     = map fst (df s)"
  by (auto simp: button_logic_def utility_row_def save_row_eq reset_wizard_def spec_next_idx_def
      Let_def comp_def case_prod_unfold)


lemma spec_next_idx_range:
  "0 \<le> i \<Longrightarrow> i < n \<Longrightarrow> 0 \<le> spec_next_idx b n i \<and> spec_next_idx b n i < n"
  by (simp add: spec_next_idx_def)

lemma run_wizard_idx:
  assumes "0 \<le> wizard_idx s" and "wizard_idx s < int (length (df s))"
  shows "wizard_idx (snd (run L inp s)) = spec_next_idx (pressed inp) (int (length (df s))) (wizard_idx s)
    \<and> map fst (df (snd (run L inp s))) = map fst (df s)"
proof -
  from assms obtain k where
    "run L inp s =
      button_logic L inp (map fst (df s)) (kinds_of L (df s))
        (s\<lparr>temp_row := (temp_row s)(fst (df s ! nat (wizard_idx s)) \<mapsto> form_value k inp)\<rparr>)"
    by (rule run_wizard_at)
  then show ?thesis
    using button_logic_idx [of L inp
        "s\<lparr>temp_row := (temp_row s)(fst (df s ! nat (wizard_idx s)) \<mapsto> form_value k inp)\<rparr>"]
    by simp
qed

lemma DataFrame_columns_Nil: "DataFrame_columns cols = [] \<longleftrightarrow> cols = []"
  by (simp add: DataFrame_columns_def)

lemma run_headers_position:
  "df s = [] \<Longrightarrow> wizard_idx s = 0 \<Longrightarrow> position_ok (snd (run L inp s))"
  by (simp add: run_def run_headers_def position_ok_def save_csv_atomic_eq reset_wizard_def
      DataFrame_columns_Nil Let_def del: filter_map)

lemma run_position_ok: "position_ok s \<Longrightarrow> position_ok (snd (run L inp s))"
proof -
  assume ok: "position_ok s"
  show ?thesis
  proof (cases "df s = [] \<and> wizard_idx s = 0")
    case True
    then show ?thesis by (simp add: run_headers_position)
  next
    case False
    with ok have v: "0 \<le> wizard_idx s" "wizard_idx s < int (length (df s))"
      by (auto simp: position_ok_def)
    from run_wizard_idx [OF v, of L inp] spec_next_idx_range [OF v, of "pressed inp"]
    have "0 \<le> wizard_idx (snd (run L inp s))"
      and "wizard_idx (snd (run L inp s)) < int (length (map fst (df (snd (run L inp s)))))"
      by simp_all
    then show ?thesis by (simp add: position_ok_def)
  qed
qed

lemma startup_position_ok: "position_ok (startup L d)"
  by (auto simp: startup_def position_ok_def split: prod.splits)

lemma reachable_position_ok: "reachable L s \<Longrightarrow> position_ok s"
  by (induction rule: reachable.induct) (simp_all add: startup_position_ok run_position_ok)

text \<open>
  Claim C1. In every state of a session whose table has columns, the wizard index is a
  valid index: at least 0 and below the number of columns; and after any run from such a
  state it is a valid index again. Back at index 0 and Next at the last index leave the
  index where it is. For a table with distinct labels every run keeps the columns, and
  the index after the run is the one the specification's transitions give.
\<close>

theorem wizard_position_valid:
  assumes "reachable L s" and "df s \<noteq> []"
  shows "0 \<le> wizard_idx s \<and> wizard_idx s < int (length (df s))
    \<and> 0 \<le> wizard_idx (snd (run L inp s))
    \<and> wizard_idx (snd (run L inp s)) < int (length (df (snd (run L inp s))))
    \<and> (pressed inp = Some Back \<and> wizard_idx s = 0 \<longrightarrow> wizard_idx (snd (run L inp s)) = 0)
    \<and> (pressed inp = Some Next \<and> wizard_idx s = int (length (df s)) - 1 \<longrightarrow>
          wizard_idx (snd (run L inp s)) = int (length (df s)) - 1)
    \<and> (distinct (map fst (df s)) \<longrightarrow>
          map fst (df (snd (run L inp s))) = map fst (df s)
          \<and> wizard_idx (snd (run L inp s))
              = spec_next_idx (pressed inp) (int (length (df s))) (wizard_idx s))"
proof -
  from assms have v: "0 \<le> wizard_idx s" "wizard_idx s < int (length (df s))"
    using reachable_position_ok [of L s] by (auto simp: position_ok_def)
  have "length (df (snd (run L inp s))) = length (map fst (df (snd (run L inp s))))"
    by simp
  also have "\<dots> = length (df s)"
    using run_wizard_idx [OF v, of L inp] by simp
  finally have n: "length (df (snd (run L inp s))) = length (df s)" .
  from run_wizard_idx [OF v, of L inp] spec_next_idx_range [OF v, of "pressed inp"] v n
  show ?thesis by (auto simp: spec_next_idx_def)
qed








lemma example_start_eq:
  "example_start =
     \<lparr>csv_path = DEFAULT_CSV_PATH,
      df = [(''A'', \<lparr>dtype = Integer_dtype, vals = [PInt 1]\<rparr>),
            (''B'', \<lparr>dtype = Object_dtype, vals = [PStr ''x'']\<rparr>)],
      wizard_idx = 0, temp_row = Map.empty, disk = example_disk\<rparr>"
  by (simp add: example_start_def startup_def load_csv_def example_disk_def plain_lib_def
      read_csv_lines_def NA_VALUES_def na_filter_def pandas_default_na_def infer_column_def
      all_read_def read_cells_def csv_int_def csv_float_def csv_bool_def is_digit_def
      decimal_def digit_val_def)

lemma example_at_B_eq:
  "example_at_B =
     \<lparr>csv_path = DEFAULT_CSV_PATH,
      df = [(''A'', \<lparr>dtype = Integer_dtype, vals = [PInt 1]\<rparr>),
            (''B'', \<lparr>dtype = Object_dtype, vals = [PStr ''x'']\<rparr>)],
      wizard_idx = 1, temp_row = [''A'' \<mapsto> RStr ''5''], disk = example_disk\<rparr>"
  by (simp add: example_at_B_def example_start_eq run_def run_wizard_def list_getitem_def
      kinds_of_def infer_input_type_def empty_series_def is_bool_dtype_def is_integer_dtype_def
      button_logic_def seed_temp_row_def form_value_def Let_def)

lemma example_reachable: "reachable plain_lib example_start \<and> reachable plain_lib example_at_B"
  unfolding example_at_B_def example_start_def
  by (intro conjI reachable.step reachable.start)






theorem wizard_position_valid_witness:
  "reachable plain_lib example_at_B \<and> df example_at_B \<noteq> []
   \<and> wizard_idx example_at_B = 1 \<and> length (df example_at_B) = 2
   \<and> wizard_idx (snd (run plain_lib \<lparr>checked = False, typed = ''y'', pressed = Some Next\<rparr>
        example_at_B)) = 1
   \<and> wizard_idx (snd (run plain_lib \<lparr>checked = False, typed = ''y'', pressed = Some Back\<rparr>
        example_at_B)) = 0
   \<and> wizard_idx (snd (run plain_lib \<lparr>checked = False, typed = ''y'', pressed = Some Back\<rparr>
        example_start)) = 0"
proof -
  have r1: "reachable plain_lib example_at_B" and r0: "reachable plain_lib example_start"
    using example_reachable by simp_all
  have h1: "df example_at_B \<noteq> []" and h0: "df example_start \<noteq> []"
    by (simp_all add: example_at_B_eq example_start_eq)
  show ?thesis
    using r1 h1
      wizard_position_valid [OF r1 h1,
        where inp = "\<lparr>checked = False, typed = ''y'', pressed = Some Next\<rparr>"]
      wizard_position_valid [OF r1 h1,
        where inp = "\<lparr>checked = False, typed = ''y'', pressed = Some Back\<rparr>"]
      wizard_position_valid [OF r0 h0,
        where inp = "\<lparr>checked = False, typed = ''y'', pressed = Some Back\<rparr>"]
    by (simp add: example_at_B_eq example_start_eq spec_next_idx_def)
qed

subsection \<open>Saving and loading back\<close>




end
